theory Spec2Isabelle
  imports Complex_Main "HOL-Library.Multiset"
begin

section \<open>Values shared by the scoring and insight modules\<close>

text \<open>
  A Python \<open>str\<close> is a sequence of Unicode code points, and \<open>len\<close>, \<open>split\<close>,
  \<open>strip\<close> and \<open>count\<close> all work on code points. A string is therefore a list of
  code points (natural numbers); \<open>ascii\<close> turns an ASCII literal into one.

  Numbers are reals. In \<open>insights.py\<close> every number is a Python float computed by
  the interpreter itself, and the model follows it bit by bit: a float is the real
  number it represents, a division returns the double nearest to the quotient, and
  \<open>round\<close> returns the double nearest to the decimal it rounds to. In
  \<open>assign_scores.py\<close> the numbers come out of the embedding model and
  scikit-learn in single precision; there the representation error is not part of
  the embedding, and the concrete values evaluated lie further from a rounding tie
  than single precision can move them.
\<close>

type_synonym ustr = "nat list"

definition ascii :: "string \<Rightarrow> ustr" where
  "ascii s = map of_char s"

text \<open>
  The code points for which \<open>str.isspace\<close> holds; \<open>str.split()\<close> and \<open>str.strip()\<close>
  without arguments treat exactly these as whitespace.
\<close>

definition is_whitespace :: "nat \<Rightarrow> bool" where
  "is_whitespace c =
     ((9 \<le> c \<and> c \<le> 13) \<or> (28 \<le> c \<and> c \<le> 32) \<or> c = 133 \<or> c = 160 \<or> c = 5760
      \<or> (8192 \<le> c \<and> c \<le> 8202) \<or> c = 8232 \<or> c = 8233 \<or> c = 8239 \<or> c = 8287
      \<or> c = 12288)"

text \<open>\<open>s.split()\<close>: the maximal runs of non-whitespace code points, in order.\<close>

fun split_acc :: "ustr \<Rightarrow> ustr \<Rightarrow> ustr list" where
  "split_acc cur [] = (if cur = [] then [] else [rev cur])"
| "split_acc cur (c # cs) =
     (if is_whitespace c
      then (if cur = [] then split_acc [] cs else rev cur # split_acc [] cs)
      else split_acc (c # cur) cs)"

definition str_split :: "ustr \<Rightarrow> ustr list" where
  "str_split s = split_acc [] s"

text \<open>\<open>s.strip()\<close>: leading and trailing whitespace removed.\<close>

definition str_strip :: "ustr \<Rightarrow> ustr" where
  "str_strip s = rev (dropWhile is_whitespace (rev (dropWhile is_whitespace s)))"

text \<open>\<open>sep.join(parts)\<close>.\<close>

fun str_join :: "ustr \<Rightarrow> ustr list \<Rightarrow> ustr" where
  "str_join sep [] = []"
| "str_join sep [p] = p"
| "str_join sep (p # q # ps) = p @ sep @ str_join sep (q # ps)"

text \<open>
  \<open>round(x, ndigits)\<close> as a decimal: the multiple of \<open>10 ^ -ndigits\<close> nearest to
  the value \<open>x\<close> represents, a tie going to the even neighbour.
\<close>

definition round_half_even :: "real \<Rightarrow> int" where
  "round_half_even x =
     (let f = \<lfloor>x\<rfloor>; d = x - of_int f
      in if d < 1 / 2 then f else if 1 / 2 < d then f + 1 else if even f then f else f + 1)"

definition py_round :: "real \<Rightarrow> nat \<Rightarrow> real" where
  "py_round x ndigits = of_int (round_half_even (x * 10 ^ ndigits)) / 10 ^ ndigits"

text \<open>
  Binary64. \<open>to_double x\<close> is the double nearest to \<open>x\<close>, a tie going to the even
  significand: with \<open>2 ^ e \<le> |x| < 2 ^ (e + 1)\<close> the doubles around \<open>x\<close> are the
  multiples of \<open>2 ^ (e - 52)\<close>, and below \<open>2 ^ -1022\<close> those of \<open>2 ^ -1074\<close>.
  Overflow to infinity has no counterpart: the quotients and decimals of
  \<open>insights.py\<close> are bounded by a hundred times the number of code points held in
  memory.
\<close>

definition pow2 :: "int \<Rightarrow> real" where
  "pow2 e = (if 0 \<le> e then 2 ^ nat e else 1 / 2 ^ nat (- e))"

definition to_double :: "real \<Rightarrow> real" where
  "to_double x =
     (if x = 0 then 0
      else
        let e = max \<lfloor>log 2 \<bar>x\<bar>\<rfloor> (- 1022);
            ulp = pow2 (e - 52)
        in of_int (round_half_even (x / ulp)) * ulp)"

text \<open>\<open>a / b\<close> on two Python integers: the double nearest to the quotient.\<close>

definition true_div :: "int \<Rightarrow> int \<Rightarrow> real" where
  "true_div a b = to_double (of_int a / of_int b)"

text \<open>
  \<open>round(x, ndigits)\<close> on a Python float: the interpreter rounds the exact value of
  \<open>x\<close> to the decimal and returns the double nearest to that decimal.
\<close>

definition float_round :: "real \<Rightarrow> nat \<Rightarrow> real" where
  "float_round x ndigits = to_double (py_round x ndigits)"

text \<open>
  \<open>xs[:k]\<close> for a Python integer \<open>k\<close>: the first \<open>k\<close> elements, all of them when
  \<open>k\<close> exceeds the length, and all but the last \<open>-k\<close> when \<open>k\<close> is negative.
\<close>

definition py_take :: "int \<Rightarrow> 'a list \<Rightarrow> 'a list" where
  "py_take k xs = (if 0 \<le> k then take (nat k) xs else take (length xs - nat (- k)) xs)"

text \<open>
  \<open>sorted(xs, key=f, reverse=True)\<close> on numeric keys: descending by key, and elements
  with equal keys keep the order they have in \<open>xs\<close> (Python's sort stays stable under
  \<open>reverse=True\<close>). A stable ascending sort on the negated key does exactly that.
\<close>

definition sorted_reverse :: "('a \<Rightarrow> real) \<Rightarrow> 'a list \<Rightarrow> 'a list" where
  "sorted_reverse f xs = sort_key (\<lambda>x. - f x) xs"


section \<open>insights.py\<close>

text \<open>
  Modelled from the spec: the table behind \<open>emoji.is_emoji\<close> belongs to the external
  \<open>emoji\<close> package and is not part of the repository; the spec describes it as a
  code-point range membership test. \<open>post_style_insights\<close> takes the test as a
  parameter; \<open>is_emoji_ranges\<close> is one such test (the pictograph blocks
  U+1F300..U+1FAFF and the symbol and dingbat blocks U+2600..U+27BF), used where a
  closed evaluation needs a concrete test.
\<close>

definition is_emoji_ranges :: "nat \<Rightarrow> bool" where
  "is_emoji_ranges c = ((127744 \<le> c \<and> c \<le> 129791) \<or> (9728 \<le> c \<and> c \<le> 10175))"

text \<open>
  \<open>post_style_insights(posts)\<close>. The returned dict is a map from field name to value.
  The list \<open>emojis\<close> of the source is computed and never read, so it has no
  counterpart here.
\<close>

definition post_style_insights :: "(nat \<Rightarrow> bool) \<Rightarrow> ustr list \<Rightarrow> (string \<rightharpoonup> real)" where
  "post_style_insights is_emoji posts =
     (if posts = [] then Map.empty
      else
        let total_chars = sum_list (map length posts);
            total_words = sum_list (map (\<lambda>p. length (str_split p)) posts);
            posts_with_emoji = length (filter (\<lambda>p. list_ex is_emoji p) posts);
            exclamations = sum_list (map (\<lambda>p. count_list p 33) posts);
            num = length posts
        in map_of
             [(''avg_post_length_chars'', float_round (true_div (int total_chars) (int num)) 1),
              (''avg_post_length_words'', float_round (true_div (int total_words) (int num)) 1),
              (''emoji_usage_percent'',
                 float_round (true_div (100 * int posts_with_emoji) (int num)) 1),
              (''avg_exclamations_per_post'',
                 float_round (true_div (int exclamations) (int num)) 2)])"

text \<open>
  The spec's wording of the word count, "whitespace-delimited tokens": a token starts
  at every non-whitespace code point that is first in the string or follows a
  whitespace code point. The flag says whether the previous code point was whitespace
  (or there was none).
\<close>

fun token_starts :: "bool \<Rightarrow> ustr \<Rightarrow> nat" where
  "token_starts b [] = 0"
| "token_starts b (c # cs) =
     (if \<not> is_whitespace c \<and> b then 1 else 0) + token_starts (is_whitespace c) cs"

text \<open>
  What "rounded to \<open>nd\<close> decimals" says of a returned float \<open>v\<close> and the float \<open>q\<close>
  it was rounded from: \<open>v\<close> is the double of a decimal with \<open>nd\<close> places that lies
  within half a unit of the last place of \<open>q\<close>.
\<close>

definition rounded_from :: "nat \<Rightarrow> real \<Rightarrow> real \<Rightarrow> bool" where
  "rounded_from nd q v =
     (\<exists>k::int. \<bar>of_int k / 10 ^ nd - q\<bar> \<le> 1 / (2 * 10 ^ nd) \<and> v = to_double (of_int k / 10 ^ nd))"

text \<open>The two posts of the spec's scenario.\<close>

definition scenario_posts :: "ustr list" where
  "scenario_posts =
     [ascii ''I love hiking! '' @ [127956, 65039], ascii ''Best trail ever!!'']"

text \<open>
  Twenty posts holding one code point between them, and forty posts holding one
  exclamation mark between them: the quotients \<open>1/20\<close> and \<open>1/40\<close> are decimal
  ties that no double represents.
\<close>

definition one_in_twenty :: "ustr list" where
  "one_in_twenty = ascii ''a'' # replicate 19 []"

definition one_in_forty :: "ustr list" where
  "one_in_forty = ascii ''!'' # replicate 39 []"


section \<open>assign_scores.py\<close>

text \<open>
  The embedding model, the zero-shot pipeline, \<open>numpy\<close> and \<open>scikit-learn\<close> are
  external. They enter as follows.
  \<^item> The embedding model is a function from a text to its vector;
    \<open>model.encode(texts, normalize_embeddings=True)\<close> returns an array of shape
    \<open>(N, D)\<close>, one row per text, in order. A vector is a list of reals, and every
    vector of one model has the model's width \<open>D > 0\<close>: that is the type
    \<open>embedder\<close>.
  \<^item> The zero-shot pipeline is a function from the text and the candidate labels to
    the pair of its \<open>labels\<close> and \<open>scores\<close> lists.
  \<^item> \<open>cosine_similarity\<close> is defined as scikit-learn computes it: the arguments
    are validated (\<open>ValueError\<close> for an array without rows or without columns, and
    for two arrays of different widths), normalised row by row (a row of norm zero is
    left as it is) and multiplied.
  \<^item> \<open>np.argsort\<close> returns a permutation of the indices that puts the values in
    ascending order. Under its default sort kind numpy fixes no order among equal
    values, so the function is a parameter \<open>np_argsort\<close> of everything that sorts,
    and \<open>argsort_spec\<close> is all that is known of it.
  An unavailable model or classifier is outside the embedding; the source has no
  handler, so such a failure would leave every function below unchanged. What the
  source itself and the validation of its arguments can raise is a branch of the
  model. \<open>EmptyInputError\<close> and \<open>InvalidParameterError\<close> are the spec's names for
  errors of the caller; the source defines and raises neither.
\<close>

datatype error = IndexError | ValueError | EmptyInputError | InvalidParameterError

type_synonym vec = "real list"

typedef embedder = "{f :: ustr \<Rightarrow> vec. \<exists>d>0. \<forall>t. length (f t) = d}"
  morphisms embed Abs_embedder
proof
  show "(\<lambda>t. [0]) \<in> {f :: ustr \<Rightarrow> vec. \<exists>d>0. \<forall>t. length (f t) = d}"
    by simp
qed

setup_lifting type_definition_embedder

definition width :: "embedder \<Rightarrow> nat" where
  "width model = length (embed model [])"

type_synonym argsorter = "real list \<Rightarrow> nat list"

definition argsort_spec :: "argsorter \<Rightarrow> bool" where
  "argsort_spec np_argsort =
     (\<forall>a. mset (np_argsort a) = mset [0..<length a] \<and>
          sorted (map (\<lambda>i. a ! i) (np_argsort a)))"

type_synonym classifier = "ustr \<Rightarrow> ustr list \<Rightarrow> ustr list \<times> real list"

record persona =
  label :: ustr
  description :: ustr
  emoji :: ustr
  traits :: "ustr list"
  synonyms :: "ustr list"

text \<open>The dict built for each shortlisted persona; \<open>res_label\<close> is its key \<open>label\<close>.\<close>

record score_result =
  res_label :: ustr
  embed_score :: real
  zero_shot_score :: real
  combined_score :: real

record product_entry =
  product :: ustr
  category :: ustr

text \<open>The dict built for each candidate product, with keys \<open>product\<close>, \<open>category\<close>, \<open>score\<close>.\<close>

record recommendation =
  rec_product :: ustr
  rec_category :: ustr
  score :: real

text \<open>The argument of \<open>encode_text\<close> is \<open>Union[str, List[str]]\<close>.\<close>

datatype texts = Single ustr | Many "ustr list"

definition encode_text :: "texts \<Rightarrow> embedder \<Rightarrow> vec list" where
  "encode_text texts model =
     (case texts of Single t \<Rightarrow> map (embed model) [t] | Many ts \<Rightarrow> map (embed model) ts)"

text \<open>\<open>a.mean(axis=0)\<close> of a two-dimensional array given by its rows.\<close>

definition mean_axis0 :: "vec list \<Rightarrow> vec" where
  "mean_axis0 rows =
     (case rows of
        [] \<Rightarrow> []
      | r # _ \<Rightarrow> map (\<lambda>j. sum_list (map (\<lambda>row. row ! j) rows) / real (length rows))
                   [0..<length r])"

definition embed_user_input :: "ustr \<Rightarrow> ustr list \<Rightarrow> embedder \<Rightarrow> real \<Rightarrow> vec" where
  "embed_user_input bio posts model weight_bio =
     (let texts = str_strip bio # posts;
          weights = weight_bio # replicate (length posts) 1;
          vectors = encode_text (Many texts) model;
          weighted = map (\<lambda>(w, v). map (\<lambda>x. w * x) v) (zip weights vectors)
      in mean_axis0 weighted)"

definition embed_personalities :: "persona list \<Rightarrow> embedder \<Rightarrow> vec list" where
  "embed_personalities personas model = encode_text (Many (map description personas)) model"

definition norm2 :: "vec \<Rightarrow> real" where
  "norm2 v = sqrt (sum_list (map (\<lambda>x. x * x) v))"

definition normalize_row :: "vec \<Rightarrow> vec" where
  "normalize_row v = (let n = norm2 v in map (\<lambda>x. x / (if n = 0 then 1 else n)) v)"

definition dot :: "vec \<Rightarrow> vec \<Rightarrow> real" where
  "dot u v = sum_list (map (\<lambda>(x, y). x * y) (zip u v))"

definition cosine_similarity :: "vec list \<Rightarrow> vec list \<Rightarrow> error + real list list" where
  "cosine_similarity X Y =
     (case X of
        [] \<Rightarrow> Inl ValueError
      | x # _ \<Rightarrow>
          if Y = [] \<or> x = [] \<or> list_ex (\<lambda>r. length r \<noteq> length x) X
             \<or> list_ex (\<lambda>r. length r \<noteq> length x) Y
          then Inl ValueError
          else Inr (map (\<lambda>x. map (\<lambda>y. dot (normalize_row x) (normalize_row y)) Y) X))"

text \<open>\<open>np.argsort(sims)[::-1][:top_k]\<close>.\<close>

definition top_idxs :: "argsorter \<Rightarrow> real list \<Rightarrow> int \<Rightarrow> nat list" where
  "top_idxs np_argsort sims top_k = py_take top_k (rev (np_argsort sims))"

text \<open>
  \<open>[personalities[i]["label"] for i in top_idxs]\<close>: the first index beyond the list
  raises \<open>IndexError\<close>.
\<close>

fun labels_of :: "persona list \<Rightarrow> nat list \<Rightarrow> error + ustr list" where
  "labels_of personalities [] = Inr []"
| "labels_of personalities (i # idxs) =
     (if i < length personalities
      then (case labels_of personalities idxs of
              Inl e \<Rightarrow> Inl e
            | Inr ls \<Rightarrow> Inr (label (personalities ! i) # ls))
      else Inl IndexError)"

text \<open>
  \<open>dict(zip(zs["labels"], zs["scores"])).get(label, 0.0)\<close>: of two pairs with the same
  label the later one is kept.
\<close>

definition zero_shot_get :: "ustr list \<times> real list \<Rightarrow> ustr \<Rightarrow> real" where
  "zero_shot_get zs l =
     (case map_of (rev (zip (fst zs) (snd zs))) l of None \<Rightarrow> 0 | Some s \<Rightarrow> s)"

text \<open>The list comprehension of \<open>compute_scores\<close>, before it is sorted.\<close>

definition score_entries ::
  "real list \<Rightarrow> (ustr \<Rightarrow> real) \<Rightarrow> real \<Rightarrow> real \<Rightarrow> nat list \<Rightarrow> ustr list \<Rightarrow> score_result list" where
  "score_entries sims zero_shot_scores alpha beta idxs labels =
     map (\<lambda>(i, l).
            \<lparr>res_label = l,
             embed_score = py_round (sims ! i) 3,
             zero_shot_score = py_round (zero_shot_scores l) 3,
             combined_score = py_round (alpha * sims ! i + beta * zero_shot_scores l) 3\<rparr>)
         (zip idxs labels)"

text \<open>
  The first two lines of \<open>compute_scores\<close>: the user vector and the row of its
  similarities to the persona vectors.
\<close>

definition similarities ::
  "ustr \<Rightarrow> ustr list \<Rightarrow> vec list \<Rightarrow> embedder \<Rightarrow> real \<Rightarrow> error + real list" where
  "similarities bio posts personalities_vectors embedding_model weight_bio =
     (let user_vector = embed_user_input bio posts embedding_model weight_bio
      in case cosine_similarity [user_vector] personalities_vectors of
           Inl e \<Rightarrow> Inl e
         | Inr rows \<Rightarrow> Inr (rows ! 0))"

text \<open>The text handed to the classifier: \<open>bio + " " + " ".join(posts)\<close>.\<close>

definition zero_shot_text :: "ustr \<Rightarrow> ustr list \<Rightarrow> ustr" where
  "zero_shot_text bio posts = bio @ ascii '' '' @ str_join (ascii '' '') posts"

text \<open>
  Everything \<open>compute_scores\<close> does before the final \<open>sorted\<close>: the entries in
  shortlist order.
\<close>

definition shortlist_scores ::
  "argsorter \<Rightarrow> ustr \<Rightarrow> ustr list \<Rightarrow> persona list \<Rightarrow> vec list \<Rightarrow> embedder \<Rightarrow> classifier \<Rightarrow>
   real \<Rightarrow> real \<Rightarrow> int \<Rightarrow> real \<Rightarrow> error + score_result list" where
  "shortlist_scores np_argsort bio posts personalities personalities_vectors embedding_model
     zero_shot alpha beta top_k weight_bio =
     (case similarities bio posts personalities_vectors embedding_model weight_bio of
        Inl e \<Rightarrow> Inl e
      | Inr sims \<Rightarrow>
          let idxs = top_idxs np_argsort sims top_k
          in case labels_of personalities idxs of
               Inl e \<Rightarrow> Inl e
             | Inr labels \<Rightarrow>
                 let zs = zero_shot (zero_shot_text bio posts) labels;
                     zero_shot_scores = zero_shot_get zs
                 in Inr (score_entries sims zero_shot_scores alpha beta idxs labels))"

definition compute_scores ::
  "argsorter \<Rightarrow> ustr \<Rightarrow> ustr list \<Rightarrow> persona list \<Rightarrow> vec list \<Rightarrow> embedder \<Rightarrow> classifier \<Rightarrow>
   real \<Rightarrow> real \<Rightarrow> int \<Rightarrow> real \<Rightarrow> error + score_result list" where
  "compute_scores np_argsort bio posts personalities personalities_vectors embedding_model
     zero_shot alpha beta top_k weight_bio =
     (case shortlist_scores np_argsort bio posts personalities personalities_vectors
             embedding_model zero_shot alpha beta top_k weight_bio of
        Inl e \<Rightarrow> Inl e
      | Inr entries \<Rightarrow> Inr (sorted_reverse zero_shot_score entries))"

text \<open>\<open>product_catalog.get(persona, [])\<close>.\<close>

definition catalog_get :: "(ustr \<rightharpoonup> product_entry list) \<Rightarrow> ustr \<Rightarrow> product_entry list" where
  "catalog_get product_catalog persona =
     (case product_catalog persona of None \<Rightarrow> [] | Some ps \<Rightarrow> ps)"

definition candidates :: "ustr list \<Rightarrow> (ustr \<rightharpoonup> product_entry list) \<Rightarrow> product_entry list" where
  "candidates top_personas product_catalog =
     concat (map (catalog_get product_catalog) top_personas)"

definition recommend_products ::
  "ustr list \<Rightarrow> ustr list \<Rightarrow> (ustr \<rightharpoonup> product_entry list) \<Rightarrow> embedder \<Rightarrow> int \<Rightarrow>
   error + recommendation list" where
  "recommend_products posts top_personas product_catalog model top_k =
     (let user_vector = encode_text (Single (str_join (ascii '' '') posts)) model ! 0;
          products = candidates top_personas product_catalog
      in if products = [] then Inr []
         else
           let product_texts = map (\<lambda>p. product p @ ascii '' - '' @ category p) products;
               product_vecs = encode_text (Many product_texts) model
           in case cosine_similarity [user_vector] product_vecs of
                Inl e \<Rightarrow> Inl e
              | Inr rows \<Rightarrow>
                  let scores = rows ! 0
                  in Inr (py_take top_k
                            (sorted_reverse score
                               (map (\<lambda>(p, s).
                                       \<lparr>rec_product = product p, rec_category = category p,
                                        score = py_round s 3\<rparr>)
                                    (zip products scores)))))"

text \<open>
  The spec's wording of the recommender: every candidate is encoded as the text
  "product - category", scored by its cosine similarity to the vector of the user
  text and rounded, and the candidates are sorted by descending score, ties in
  candidate order. \<open>recommend_products\<close> is compared with the first \<open>top_k\<close> of
  this ranking below.
\<close>

definition ranked_for ::
  "ustr \<Rightarrow> ustr list \<Rightarrow> (ustr \<rightharpoonup> product_entry list) \<Rightarrow> embedder \<Rightarrow> recommendation list" where
  "ranked_for user_text top_personas product_catalog model =
     sorted_reverse score
       (map (\<lambda>p. \<lparr>rec_product = product p, rec_category = category p,
                  score = py_round (dot (normalize_row (embed model user_text))
                            (normalize_row
                               (embed model (product p @ ascii '' - '' @ category p)))) 3\<rparr>)
          (candidates top_personas product_catalog))"


section \<open>Example data used in the statements\<close>

text \<open>
  Two functions that meet \<open>argsort_spec\<close>. \<open>insertion_argsort\<close> is a stable
  insertion sort, which leaves equal values in ascending index order, as numpy does
  on the two-element arrays of the examples; \<open>late_first_argsort\<close> leaves them in
  descending index order.
\<close>

definition insertion_argsort :: argsorter where
  "insertion_argsort a = sort_key (\<lambda>i. a ! i) [0..<length a]"

definition late_first_argsort :: argsorter where
  "late_first_argsort a = sort_key (\<lambda>i. a ! i) (rev [0..<length a])"

text \<open>
  A catalog of two personas, two sets of persona vectors (orthogonal ones and equal
  ones), an embedding model that maps a text of fewer than 19 code points to the unit
  vector \<open>(56/65, 33/65)\<close> and any longer text to \<open>(33/65, 56/65)\<close>, and a classifier
  that answers the candidate labels it was given with the scores \<open>0.2, 0.8\<close>, or
  with the score \<open>1\<close> when there is one candidate.
\<close>

definition foodie :: persona where
  "foodie = \<lparr>label = ascii ''Foodie'', description = ascii ''Loves food'',
             emoji = [127829], traits = [], synonyms = []\<rparr>"

definition traveler :: persona where
  "traveler = \<lparr>label = ascii ''Traveler'', description = ascii ''Loves trips'',
               emoji = [9992], traits = [], synonyms = []\<rparr>"

definition demo_vectors :: "vec list" where
  "demo_vectors = [ [1, 0], [0, 1] ]"

definition tied_vectors :: "vec list" where
  "tied_vectors = [ [1, 0], [1, 0] ]"

lift_definition demo_model :: embedder is
  "\<lambda>t. if length t < 19 then [56 / 65, 33 / 65] else [33 / 65, 56 / 65]"
  by (intro exI [of _ 2]) simp

definition demo_classifier :: classifier where
  "demo_classifier t ls = (ls, if length ls = 1 then [1] else [1 / 5, 4 / 5])"

text \<open>A product catalog with entries for one persona only.\<close>

definition demo_catalog :: "ustr \<rightharpoonup> product_entry list" where
  "demo_catalog =
     [ascii ''Foodie'' \<mapsto>
        [\<lparr>product = ascii ''Chef knife'', category = ascii ''Kitchen''\<rparr>,
         \<lparr>product = ascii ''Olive oil'', category = ascii ''Pantry''\<rparr>]]"


section \<open>Library facts about the modelled operations\<close>

lemma split_acc_length:
  "length (split_acc cur s) = token_starts (cur = []) s + (if cur = [] then 0 else 1)"
  by (induction s arbitrary: cur) auto

lemma str_split_tokens: "length (str_split s) = token_starts True s"
  by (simp add: str_split_def split_acc_length)

lemma list_ex_set: "list_ex P = (\<lambda>p. \<exists>c\<in>set p. P c)"
  by (rule ext) (simp add: list_ex_iff)

lemma count_list_filter: "count_list p c = length (filter (\<lambda>x. x = c) p)"
  by (induction p) auto

lemma zip_with_map: "zip xs (map f xs) = map (\<lambda>x. (x, f x)) xs"
  by (induction xs) auto

lemma py_take_is_take: "\<exists>m. py_take k xs = take m xs"
  by (auto simp: py_take_def)

lemma py_take_length: "0 \<le> k \<Longrightarrow> length (py_take k xs) = min (nat k) (length xs)"
  by (simp add: py_take_def)

lemma py_take_sorted: "sorted_wrt P xs \<Longrightarrow> sorted_wrt P (py_take k xs)"
  by (simp add: py_take_def sorted_wrt_take)

lemma sorted_reverse_mset: "mset (sorted_reverse f xs) = mset xs"
  by (simp add: sorted_reverse_def)

lemma sorted_reverse_set: "set (sorted_reverse f xs) = set xs"
  by (simp add: sorted_reverse_def)

lemma sorted_reverse_length: "length (sorted_reverse f xs) = length xs"
  by (simp add: sorted_reverse_def)

lemma sorted_reverse_descending: "sorted_wrt (\<lambda>a b. f b \<le> f a) (sorted_reverse f xs)"
proof -
  have "sorted (map (\<lambda>x. - f x) (sorted_reverse f xs))"
    by (simp add: sorted_reverse_def)
  then show ?thesis
    by (simp add: sorted_wrt_map)
qed

lemma sorted_reverse_stable:
  "filter (\<lambda>x. f x = k) (sorted_reverse f xs) = filter (\<lambda>x. f x = k) xs"
proof -
  have "filter (\<lambda>x. - f x = - k) (sort_key (\<lambda>x. - f x) xs) = filter (\<lambda>x. - f x = - k) xs"
    by (rule sort_key_stable)
  then show ?thesis
    by (simp add: sorted_reverse_def)
qed

text \<open>
  Rounding keeps a value of the unit interval inside it: \<open>0\<close> and \<open>1\<close> are
  themselves multiples of every \<open>10 ^ -n\<close>.
\<close>

lemma round_half_even_range:
  assumes "0 \<le> x" and "x \<le> of_int n"
  shows "0 \<le> round_half_even x \<and> round_half_even x \<le> n"
proof -
  have f0: "0 \<le> \<lfloor>x\<rfloor>" using assms(1) by simp
  show ?thesis
  proof (cases "x = of_int n")
    case True
    then show ?thesis using f0 by (simp add: round_half_even_def)
  next
    case False
    then have "x < of_int n" using assms(2) by simp
    then have "\<lfloor>x\<rfloor> < n" by (simp add: floor_less_iff)
    then show ?thesis using f0 by (auto simp: round_half_even_def Let_def)
  qed
qed

lemma py_round_unit:
  assumes "0 \<le> x" and "x \<le> 1"
  shows "0 \<le> py_round x n \<and> py_round x n \<le> 1"
proof -
  have "x * 10 ^ n \<le> of_int (10 ^ n)"
    using assms by (simp add: mult_left_le_one_le)
  moreover have "0 \<le> x * 10 ^ n" using assms by simp
  ultimately have r: "0 \<le> round_half_even (x * 10 ^ n) \<and> round_half_even (x * 10 ^ n) \<le> 10 ^ n"
    using round_half_even_range by blast
  then have "real_of_int (round_half_even (x * 10 ^ n)) \<le> 10 ^ n"
    by (metis of_int_le_iff of_int_numeral of_int_power)
  with r show ?thesis
    by (simp add: py_round_def divide_le_eq_1)
qed


section \<open>Doubles\<close>

lemma pow2_pos: "0 < pow2 e"
  by (simp add: pow2_def)

lemma pow2_powr: "pow2 e = 2 powr real_of_int e"
proof (cases "0 \<le> e")
  case True
  then have "real_of_int e = real (nat e)" by simp
  then have "2 powr real_of_int e = (2::real) ^ nat e"
    by (simp only: powr_realpow zero_less_numeral)
  with True show ?thesis by (simp add: pow2_def)
next
  case False
  then have "real_of_int e = - real (nat (- e))" by simp
  then have "2 powr real_of_int e = 1 / (2::real) ^ nat (- e)"
    by (simp only: powr_minus_divide powr_realpow zero_less_numeral)
  with False show ?thesis by (simp add: pow2_def)
qed

lemma to_double_binade:
  assumes "pow2 e \<le> \<bar>x\<bar>" and "\<bar>x\<bar> < pow2 (e + 1)" and "- 1022 \<le> e"
  shows "to_double x = of_int (round_half_even (x / pow2 (e - 52))) * pow2 (e - 52)"
proof -
  have pos: "0 < \<bar>x\<bar>" using assms(1) pow2_pos [of e] by linarith
  have "2 powr real_of_int e \<le> \<bar>x\<bar> \<and> \<bar>x\<bar> < 2 powr (real_of_int e + 1)"
    using assms(1,2) by (simp add: pow2_powr)
  then have "\<lfloor>log 2 \<bar>x\<bar>\<rfloor> = e"
    using pos by (simp add: floor_log_eq_powr_iff)
  moreover have "x \<noteq> 0" using pos by simp
  ultimately show ?thesis
    using assms(3) by (simp add: to_double_def Let_def max_def)
qed

lemma round_half_even_near: "\<bar>of_int (round_half_even y) - y\<bar> \<le> 1 / 2"
proof -
  have "of_int \<lfloor>y\<rfloor> \<le> y" and "y < of_int \<lfloor>y\<rfloor> + 1" by linarith+
  then show ?thesis
    by (auto simp: round_half_even_def Let_def abs_le_iff)
qed

lemma py_round_near: "\<bar>py_round q nd - q\<bar> \<le> 1 / (2 * 10 ^ nd)"
proof -
  let ?P = "(10::real) ^ nd"
  let ?k = "real_of_int (round_half_even (q * ?P))"
  have P: "0 < ?P" by simp
  have near: "\<bar>?k - q * ?P\<bar> \<le> 1 / 2"
    by (rule round_half_even_near)
  have "py_round q nd - q = (?k - q * ?P) / ?P"
    using P by (simp add: py_round_def diff_divide_distrib)
  then have "\<bar>py_round q nd - q\<bar> = \<bar>?k - q * ?P\<bar> / ?P"
    using P by (simp only: abs_divide abs_of_pos)
  also have "\<dots> \<le> (1 / 2) / ?P"
    using near P by (rule divide_right_mono [OF _ less_imp_le])
  finally show ?thesis by simp
qed

lemma rounded_from_float_round: "rounded_from nd q (float_round q nd)"
  unfolding rounded_from_def float_round_def
  using py_round_near [of q nd]
  by (intro exI [of _ "round_half_even (q * 10 ^ nd)"]) (simp add: py_round_def)

lemma doubles_exact:
  "to_double 17 = 17" "to_double (7 / 2) = 7 / 2" "to_double (3 / 2) = 3 / 2" "to_double 50 = 50"
  by (simp_all add: to_double_binade [of 4] to_double_binade [of 1] to_double_binade [of 0]
      to_double_binade [of 5] pow2_def round_half_even_def Let_def)

lemma double_of_twentieth: "to_double (1 / 20) = 3602879701896397 / 72057594037927936"
  by (simp add: to_double_binade [of "-5"] pow2_def round_half_even_def Let_def)

lemma double_of_fortieth: "to_double (1 / 40) = 3602879701896397 / 144115188075855872"
  by (simp add: to_double_binade [of "-6"] pow2_def round_half_even_def Let_def)

lemma double_of_tenth: "to_double (1 / 10) = 3602879701896397 / 36028797018963968"
  by (simp add: to_double_binade [of "-4"] pow2_def round_half_even_def Let_def)

lemma double_of_three_hundredths: "to_double (3 / 100) = 1080863910568919 / 36028797018963968"
  by (simp add: to_double_binade [of "-6"] pow2_def round_half_even_def Let_def)

lemma py_round_twentieth: "py_round (3602879701896397 / 72057594037927936) 1 = 1 / 10"
  by (simp add: py_round_def round_half_even_def Let_def)

lemma py_round_fortieth: "py_round (3602879701896397 / 144115188075855872) 2 = 3 / 100"
  by (simp add: py_round_def round_half_even_def Let_def)

lemma py_round_exact_ties: "py_round (1 / 20) 1 = 0" "py_round (1 / 40) 2 = 1 / 50"
  by (simp_all add: py_round_def round_half_even_def Let_def)

section \<open>The similarity shortlist\<close>

lemma argsort_spec_set: "argsort_spec srt \<Longrightarrow> set (srt a) = {0..<length a}"
proof -
  assume "argsort_spec srt"
  then have "mset (srt a) = mset [0..<length a]" by (simp add: argsort_spec_def)
  then have "set (srt a) = set [0..<length a]" by (rule mset_eq_setD)
  then show ?thesis by simp
qed

lemma argsort_spec_length: "argsort_spec srt \<Longrightarrow> length (srt a) = length a"
proof -
  assume "argsort_spec srt"
  then have "mset (srt a) = mset [0..<length a]" by (simp add: argsort_spec_def)
  then have "length (srt a) = length [0..<length a]" by (rule mset_eq_length)
  then show ?thesis by simp
qed

lemma argsort_spec_distinct: "argsort_spec srt \<Longrightarrow> distinct (srt a)"
proof -
  assume "argsort_spec srt"
  then have "mset (srt a) = mset [0..<length a]" by (simp add: argsort_spec_def)
  then have "distinct (srt a) \<longleftrightarrow> distinct [0..<length a]" by (rule mset_eq_imp_distinct_iff)
  then show ?thesis by simp
qed

lemma argsort_spec_descending:
  "argsort_spec srt \<Longrightarrow> sorted_wrt (\<lambda>i j. a ! j \<le> a ! i) (rev (srt a))"
proof -
  assume "argsort_spec srt"
  then have "sorted (map (\<lambda>i. a ! i) (srt a))" by (simp add: argsort_spec_def)
  then show ?thesis by (simp add: sorted_map sorted_wrt_rev)
qed

lemma insertion_argsort_spec: "argsort_spec insertion_argsort"
  by (simp add: argsort_spec_def insertion_argsort_def)

lemma late_first_argsort_spec: "argsort_spec late_first_argsort"
  by (simp add: argsort_spec_def late_first_argsort_def)

lemma top_idxs_set:
  assumes "argsort_spec srt"
  shows "set (top_idxs srt sims top_k) \<subseteq> {0..<length sims}"
proof -
  obtain m where "py_take top_k (rev (srt sims)) = take m (rev (srt sims))"
    using py_take_is_take by blast
  then have "set (top_idxs srt sims top_k) \<subseteq> set (rev (srt sims))"
    unfolding top_idxs_def using set_take_subset [of m "rev (srt sims)"] by simp
  then show ?thesis using assms by (simp add: argsort_spec_set)
qed

lemma top_idxs_distinct:
  assumes "argsort_spec srt"
  shows "distinct (top_idxs srt sims top_k)"
proof -
  obtain m where "py_take top_k (rev (srt sims)) = take m (rev (srt sims))"
    using py_take_is_take by blast
  then show ?thesis using assms by (simp add: top_idxs_def argsort_spec_distinct)
qed

lemma top_idxs_length:
  "argsort_spec srt \<Longrightarrow> 0 \<le> top_k \<Longrightarrow>
   length (top_idxs srt sims top_k) = min (nat top_k) (length sims)"
  by (simp add: top_idxs_def py_take_length argsort_spec_length)

lemma top_idxs_sorted:
  assumes "argsort_spec srt"
  shows "sorted_wrt (\<lambda>i j. sims ! j \<le> sims ! i) (top_idxs srt sims top_k)"
  unfolding top_idxs_def using argsort_spec_descending [OF assms, of sims] by (rule py_take_sorted)

lemma top_idxs_above_rest:
  assumes "argsort_spec srt" and "i \<in> set (top_idxs srt sims top_k)" and "j < length sims"
    and "j \<notin> set (top_idxs srt sims top_k)"
  shows "sims ! j \<le> sims ! i"
proof -
  let ?r = "rev (srt sims)"
  obtain m where m: "py_take top_k ?r = take m ?r"
    using py_take_is_take by blast
  have "sorted_wrt (\<lambda>i j. sims ! j \<le> sims ! i) (take m ?r @ drop m ?r)"
    using argsort_spec_descending [OF assms(1), of sims] by simp
  then have above: "\<forall>x\<in>set (take m ?r). \<forall>y\<in>set (drop m ?r). sims ! y \<le> sims ! x"
    unfolding sorted_wrt_append by blast
  have "j \<in> set (take m ?r @ drop m ?r)"
    using assms(1,3) by (simp add: argsort_spec_set)
  then have "j \<in> set (drop m ?r)"
    using assms(4) m unfolding top_idxs_def set_append by auto
  moreover have "i \<in> set (take m ?r)"
    using assms(2) m by (simp add: top_idxs_def)
  ultimately show ?thesis using above by blast
qed


section \<open>The steps of compute_scores\<close>

lemma embed_width: "length (embed model t) = width model"
proof -
  have "\<exists>d>0. \<forall>t. length (embed model t) = d"
    using embed [of model] by simp
  then show ?thesis by (auto simp: width_def)
qed

lemma width_pos: "0 < width model"
proof -
  have "\<exists>d>0. \<forall>t. length (embed model t) = d"
    using embed [of model] by simp
  then obtain d where "0 < d" and "\<forall>t. length (embed model t) = d" by blast
  then show ?thesis by (simp add: width_def)
qed

lemma embed_nonempty: "embed model t \<noteq> []"
  using embed_width [of model t] width_pos [of model] by (metis length_greater_0_conv)

lemma mean_axis0_single: "mean_axis0 [v] = v"
  by (simp add: mean_axis0_def map_nth)

lemma mean_axis0_length: "length (mean_axis0 (r # rows)) = length r"
  by (simp add: mean_axis0_def)

lemma embed_user_input_no_posts:
  "embed_user_input bio [] model weight_bio =
     map (\<lambda>x. weight_bio * x) (embed model (str_strip bio))"
  by (simp add: embed_user_input_def encode_text_def mean_axis0_single Let_def)

lemma embed_user_input_length: "length (embed_user_input bio posts model w) = width model"
  by (simp add: embed_user_input_def encode_text_def Let_def mean_axis0_length embed_width)

lemma embed_personalities_shape:
  "length (embed_personalities ps model) = length ps \<and>
   (\<forall>v\<in>set (embed_personalities ps model). length v = width model)"
  by (auto simp: embed_personalities_def encode_text_def embed_width)

lemma cosine_similarity_row:
  assumes "u \<noteq> []" and "Y \<noteq> []" and "\<forall>y\<in>set Y. length y = length u"
  shows "cosine_similarity [u] Y = Inr [map (\<lambda>y. dot (normalize_row u) (normalize_row y)) Y]"
  using assms by (simp add: cosine_similarity_def list_ex_iff)

lemma cosine_similarity_error: "cosine_similarity X Y = Inl e \<Longrightarrow> e = ValueError"
  by (auto simp: cosine_similarity_def split: list.splits if_splits)

lemma similarities_row:
  assumes "vs \<noteq> []" and "\<forall>v\<in>set vs. length v = width m"
  shows "similarities bio posts vs m w =
     Inr (map (\<lambda>y. dot (normalize_row (embed_user_input bio posts m w)) (normalize_row y)) vs)"
proof -
  have "embed_user_input bio posts m w \<noteq> []"
    using embed_user_input_length [of bio posts m w] width_pos [of m] by auto
  moreover have "\<forall>v\<in>set vs. length v = length (embed_user_input bio posts m w)"
    using assms(2) by (simp add: embed_user_input_length)
  ultimately show ?thesis
    using assms(1) by (simp add: similarities_def Let_def cosine_similarity_row)
qed

lemma similarities_Inr_length: "similarities bio posts vs m w = Inr sims \<Longrightarrow> length sims = length vs"
  by (auto simp: similarities_def Let_def cosine_similarity_def
      split: sum.splits list.splits if_splits)

lemma similarities_empty: "similarities bio posts [] m w = Inl ValueError"
  by (simp add: similarities_def Let_def cosine_similarity_def)

lemma similarities_error: "similarities bio posts vs m w = Inl e \<Longrightarrow> e = ValueError"
  by (auto simp: similarities_def Let_def split: sum.splits dest: cosine_similarity_error)

lemma labels_of_in_range:
  "\<forall>i\<in>set idxs. i < length ps \<Longrightarrow> labels_of ps idxs = Inr (map (\<lambda>i. label (ps ! i)) idxs)"
  by (induction idxs) auto

lemma labels_of_Inr:
  "labels_of ps idxs = Inr ls \<Longrightarrow>
     (\<forall>i\<in>set idxs. i < length ps) \<and> ls = map (\<lambda>i. label (ps ! i)) idxs"
  by (induction idxs arbitrary: ls) (auto split: sum.splits if_splits)

lemma labels_of_error: "labels_of ps idxs = Inl e \<Longrightarrow> e = IndexError"
  by (induction idxs) (auto split: sum.splits if_splits)

lemma score_entries_map:
  "score_entries sims raw alpha beta idxs (map f idxs) =
     map (\<lambda>i. \<lparr>res_label = f i, embed_score = py_round (sims ! i) 3,
                zero_shot_score = py_round (raw (f i)) 3,
                combined_score = py_round (alpha * sims ! i + beta * raw (f i)) 3\<rparr>) idxs"
  by (simp add: score_entries_def zip_with_map o_def)

lemma shortlist_scores_Inr:
  assumes "shortlist_scores srt bio posts ps vs m z alpha beta k w = Inr es"
  shows "\<exists>sims. similarities bio posts vs m w = Inr sims \<and>
     (\<forall>i\<in>set (top_idxs srt sims k). i < length ps) \<and>
     es = score_entries sims
            (zero_shot_get (z (zero_shot_text bio posts)
               (map (\<lambda>i. label (ps ! i)) (top_idxs srt sims k))))
            alpha beta (top_idxs srt sims k)
            (map (\<lambda>i. label (ps ! i)) (top_idxs srt sims k))"
  using assms
  by (auto simp: shortlist_scores_def Let_def split: sum.splits dest: labels_of_Inr)

lemma shortlist_scores_total:
  assumes "argsort_spec srt" and "similarities bio posts vs m w = Inr sims"
    and "length vs = length ps"
  shows "shortlist_scores srt bio posts ps vs m z alpha beta k w =
     Inr (score_entries sims
            (zero_shot_get (z (zero_shot_text bio posts)
               (map (\<lambda>i. label (ps ! i)) (top_idxs srt sims k))))
            alpha beta (top_idxs srt sims k)
            (map (\<lambda>i. label (ps ! i)) (top_idxs srt sims k)))"
proof -
  have "length sims = length ps"
    using similarities_Inr_length [OF assms(2)] assms(3) by simp
  then have "\<forall>i\<in>set (top_idxs srt sims k). i < length ps"
    using top_idxs_set [OF assms(1), of sims k] by auto
  then show ?thesis
    using assms(2) by (simp add: shortlist_scores_def Let_def labels_of_in_range)
qed

lemma shortlist_scores_error:
  "shortlist_scores srt bio posts ps vs m z alpha beta k w = Inl e \<Longrightarrow>
   e = IndexError \<or> e = ValueError"
  by (auto simp: shortlist_scores_def Let_def split: sum.splits
      dest: labels_of_error similarities_error)

lemma compute_scores_Inr:
  "compute_scores srt bio posts ps vs m z alpha beta k w = Inr r \<longleftrightarrow>
     (\<exists>es. shortlist_scores srt bio posts ps vs m z alpha beta k w = Inr es \<and>
           r = sorted_reverse zero_shot_score es)"
  by (auto simp: compute_scores_def split: sum.splits)

lemma compute_scores_error:
  "compute_scores srt bio posts ps vs m z alpha beta k w = Inl e \<Longrightarrow>
   e = IndexError \<or> e = ValueError"
  by (auto simp: compute_scores_def split: sum.splits dest: shortlist_scores_error)

text \<open>An empty persona matrix is rejected before anything is ranked.\<close>

lemma compute_scores_empty_catalog:
  "compute_scores srt bio posts ps [] m z alpha beta k w = Inl ValueError"
  by (simp add: compute_scores_def shortlist_scores_def similarities_empty)

lemma zero_shot_get_range:
  assumes "\<forall>s\<in>set (snd zs). 0 \<le> s \<and> s \<le> 1"
  shows "0 \<le> zero_shot_get zs l \<and> zero_shot_get zs l \<le> 1"
proof (cases "map_of (rev (zip (fst zs) (snd zs))) l")
  case None
  then show ?thesis by (simp add: zero_shot_get_def)
next
  case (Some s)
  then have "(l, s) \<in> set (zip (fst zs) (snd zs))"
    using map_of_SomeD by fastforce
  then have "s \<in> set (snd zs)" by (rule set_zip_rightD)
  with assms Some show ?thesis by (simp add: zero_shot_get_def)
qed

lemma candidates_empty_iff:
  "candidates top_personas cat = [] \<longleftrightarrow> (\<forall>p\<in>set top_personas. catalog_get cat p = [])"
  by (auto simp: candidates_def)

lemma recommend_products_empty:
  "candidates top_personas cat = [] \<Longrightarrow>
   recommend_products posts top_personas cat model top_k = Inr []"
  by (simp add: recommend_products_def Let_def)

lemma recommend_products_ranked:
  "recommend_products posts top_personas cat model top_k =
     Inr (py_take top_k (ranked_for (str_join (ascii '' '') posts) top_personas cat model))"
proof (cases "candidates top_personas cat = []")
  case True
  then show ?thesis
    by (simp add: recommend_products_def ranked_for_def Let_def sorted_reverse_def py_take_def)
next
  case False
  let ?u = "embed model (str_join (ascii '' '') posts)"
  let ?Y = "map (embed model)
      (map (\<lambda>p. product p @ ascii '' - '' @ category p) (candidates top_personas cat))"
  have "?u \<noteq> []" by (rule embed_nonempty)
  moreover have "?Y \<noteq> []" using False by simp
  moreover have "\<forall>y\<in>set ?Y. length y = length ?u" by (auto simp: embed_width)
  ultimately have "cosine_similarity [?u] ?Y =
      Inr [map (\<lambda>y. dot (normalize_row ?u) (normalize_row y)) ?Y]"
    by (rule cosine_similarity_row)
  with False show ?thesis
    by (simp add: recommend_products_def ranked_for_def Let_def encode_text_def
        zip_with_map o_def)
qed


section \<open>The example data evaluated\<close>

lemma scenario_words: "map (\<lambda>p. length (str_split p)) scenario_posts = [4, 3]"
  by (simp add: scenario_posts_def ascii_def str_split_def is_whitespace_def)

lemma scenario_chars: "map length scenario_posts = [17, 17]"
  by (simp add: scenario_posts_def ascii_def)

lemma scenario_exclamations: "map (\<lambda>p. count_list p 33) scenario_posts = [1, 2]"
  by (simp add: scenario_posts_def ascii_def)

lemma scenario_emoji:
  assumes "is_emoji 127956" and "\<forall>c<128. \<not> is_emoji c"
  shows "length (filter (\<lambda>p. list_ex is_emoji p) scenario_posts) = 1"
  using assms by (simp add: scenario_posts_def ascii_def)

lemma scenario_nonempty: "scenario_posts \<noteq> [] \<and> length scenario_posts = 2"
  by (simp add: scenario_posts_def)

lemma is_emoji_ranges_scenario: "is_emoji_ranges 127956 \<and> (\<forall>c<128. \<not> is_emoji_ranges c)"
  by (simp add: is_emoji_ranges_def)

lemma scenario_quotients:
  "true_div 34 2 = 17" "true_div 7 2 = 7 / 2" "true_div 3 2 = 3 / 2" "true_div 100 2 = 50"
  by (simp_all add: true_div_def doubles_exact)

lemma scenario_rounds:
  "float_round 17 1 = 17" "float_round (7 / 2) 1 = 7 / 2" "float_round (3 / 2) 2 = 3 / 2"
  "float_round 50 1 = 50"
  by (simp_all add: float_round_def py_round_def round_half_even_def Let_def doubles_exact)

lemma scenario_rounds_Suc:
  "float_round 17 (Suc 0) = 17" "float_round (7 / 2) (Suc 0) = 7 / 2"
  "float_round 50 (Suc 0) = 50"
  using scenario_rounds by simp_all

lemma one_in_twenty_counts:
  "one_in_twenty \<noteq> []" "length one_in_twenty = 20" "length (concat one_in_twenty) = 1"
  by (simp_all add: one_in_twenty_def ascii_def)

lemma one_in_forty_counts:
  "one_in_forty \<noteq> []" "length one_in_forty = 40"
  "(\<Sum>p\<leftarrow>one_in_forty. length (filter (\<lambda>c. c = 33) p)) = 1"
  by (simp_all add: one_in_forty_def ascii_def)

lemma tie_quotients:
  "float_round (true_div 1 20) 1 = to_double (1 / 10)"
  "float_round (true_div 1 40) 2 = to_double (3 / 100)"
proof -
  have "true_div 1 20 = 3602879701896397 / 72057594037927936"
    by (simp add: true_div_def double_of_twentieth)
  then show "float_round (true_div 1 20) 1 = to_double (1 / 10)"
    by (simp only: float_round_def py_round_twentieth)
  have "true_div 1 40 = 3602879701896397 / 144115188075855872"
    by (simp add: true_div_def double_of_fortieth)
  then show "float_round (true_div 1 40) 2 = to_double (3 / 100)"
    by (simp only: float_round_def py_round_fortieth)
qed

lemma demo_labels: "label foodie = ascii ''Foodie''" "label traveler = ascii ''Traveler''"
  by (simp_all add: foodie_def traveler_def)

lemma demo_embed:
  "embed demo_model t = (if length t < 19 then [56 / 65, 33 / 65] else [33 / 65, 56 / 65])"
  by (simp add: demo_model.rep_eq)

lemma demo_width: "width demo_model = 2"
  by (simp add: width_def demo_embed)

lemma demo_user_vector: "embed_user_input [] [] demo_model 2 = [112 / 65, 66 / 65]"
  by (simp add: embed_user_input_no_posts demo_embed str_strip_def)

lemma demo_norm: "norm2 [112 / 65, 66 / 65] = 2"
  by (simp add: norm2_def)

lemma demo_similarities: "similarities [] [] demo_vectors demo_model 2 = Inr [56 / 65, 33 / 65]"
  by (simp add: similarities_def demo_user_vector cosine_similarity_def normalize_row_def demo_norm
      demo_vectors_def dot_def norm2_def Let_def)

lemma tied_similarities: "similarities [] [] tied_vectors demo_model 2 = Inr [56 / 65, 56 / 65]"
  by (simp add: similarities_def demo_user_vector cosine_similarity_def normalize_row_def demo_norm
      tied_vectors_def dot_def norm2_def Let_def)

lemma demo_top_idxs: "top_idxs insertion_argsort [56 / 65, 33 / 65] 5 = [0, 1]"
  by (simp add: top_idxs_def py_take_def insertion_argsort_def)

lemma tied_top_idxs:
  "top_idxs insertion_argsort [56 / 65, 56 / 65] 1 = [1]"
  "top_idxs late_first_argsort [56 / 65, 56 / 65] 1 = [0]"
  by (simp_all add: top_idxs_def py_take_def insertion_argsort_def late_first_argsort_def)

lemma demo_rounds:
  "py_round (56 / 65) 3 = 431 / 500" "py_round (33 / 65) 3 = 127 / 250"
  "py_round (1 / 5) 3 = 1 / 5" "py_round (4 / 5) 3 = 4 / 5" "py_round 1 3 = 1"
  by (simp_all add: py_round_def round_half_even_def Let_def)

lemma demo_get:
  "zero_shot_get ([ascii ''Foodie'', ascii ''Traveler''], [1 / 5, 4 / 5]) (ascii ''Foodie'') = 1 / 5"
  "zero_shot_get ([ascii ''Foodie'', ascii ''Traveler''], [1 / 5, 4 / 5]) (ascii ''Traveler'') = 4 / 5"
  "zero_shot_get ([ascii ''Traveler''], [1]) (ascii ''Traveler'') = 1"
  by (simp_all add: zero_shot_get_def ascii_def)

lemma demo_shortlist:
  "shortlist_scores insertion_argsort [] [] [foodie, traveler] demo_vectors demo_model
     demo_classifier alpha beta 5 2 =
     Inr [\<lparr>res_label = ascii ''Foodie'', embed_score = 431 / 500, zero_shot_score = 1 / 5,
           combined_score = py_round (alpha * (56 / 65) + beta * (1 / 5)) 3\<rparr>,
          \<lparr>res_label = ascii ''Traveler'', embed_score = 127 / 250, zero_shot_score = 4 / 5,
           combined_score = py_round (alpha * (33 / 65) + beta * (4 / 5)) 3\<rparr>]"
  by (simp add: shortlist_scores_def demo_similarities demo_top_idxs demo_labels
      demo_classifier_def score_entries_def demo_rounds demo_get Let_def)

lemma demo_scores:
  "compute_scores insertion_argsort [] [] [foodie, traveler] demo_vectors demo_model
     demo_classifier alpha beta 5 2 =
     Inr [\<lparr>res_label = ascii ''Traveler'', embed_score = 127 / 250, zero_shot_score = 4 / 5,
           combined_score = py_round (alpha * (33 / 65) + beta * (4 / 5)) 3\<rparr>,
          \<lparr>res_label = ascii ''Foodie'', embed_score = 431 / 500, zero_shot_score = 1 / 5,
           combined_score = py_round (alpha * (56 / 65) + beta * (1 / 5)) 3\<rparr>]"
  by (simp add: compute_scores_def demo_shortlist sorted_reverse_def)

lemma tied_scores:
  "compute_scores insertion_argsort [] [] [foodie, traveler] tied_vectors demo_model
     demo_classifier 1 0 1 2 =
     Inr [\<lparr>res_label = ascii ''Traveler'', embed_score = 431 / 500, zero_shot_score = 1,
           combined_score = 431 / 500\<rparr>]"
  by (simp add: compute_scores_def shortlist_scores_def tied_similarities tied_top_idxs demo_labels
      demo_classifier_def score_entries_def demo_rounds demo_get Let_def sorted_reverse_def)

lemma demo_combined:
  "py_round (3 / 10 * (56 / 65) + 7 / 10 * (1 / 5)) 3 = 199 / 500"
  "py_round (3 / 10 * (431 / 500) + 7 / 10 * (1 / 5)) 3 = 399 / 1000"
  "py_round (3 / 10 * (33 / 65) + 7 / 10 * (4 / 5)) 3 = 89 / 125"
  "py_round (1 * (33 / 65) + 0 * (4 / 5)) 3 = 127 / 250"
  "py_round (1 * (56 / 65) + 0 * (1 / 5)) 3 = 431 / 500"
  by (simp_all add: py_round_def round_half_even_def Let_def)

lemma demo_absent: "demo_catalog (ascii ''Traveler'') = None"
  by (simp add: demo_catalog_def ascii_def)

lemma demo_candidates:
  "candidates [ascii ''Foodie'', ascii ''Traveler''] demo_catalog =
     [\<lparr>product = ascii ''Chef knife'', category = ascii ''Kitchen''\<rparr>,
      \<lparr>product = ascii ''Olive oil'', category = ascii ''Pantry''\<rparr>]"
  by (simp add: candidates_def catalog_get_def demo_catalog_def ascii_def)

lemma demo_rows:
  "normalize_row [56 / 65, 33 / 65] = [56 / 65, 33 / 65]"
  "normalize_row [33 / 65, 56 / 65] = [33 / 65, 56 / 65]"
  by (simp_all add: normalize_row_def norm2_def Let_def)

lemma demo_product_rounds:
  "py_round (dot [56 / 65, 33 / 65] [33 / 65, 56 / 65]) 3 = 7 / 8"
  "py_round (dot [56 / 65, 33 / 65] [56 / 65, 33 / 65]) 3 = 1"
  by (simp_all add: dot_def py_round_def round_half_even_def Let_def)

lemma demo_ranked:
  "ranked_for [] [ascii ''Foodie'', ascii ''Traveler''] demo_catalog demo_model =
     [\<lparr>rec_product = ascii ''Olive oil'', rec_category = ascii ''Pantry'', score = 1\<rparr>,
      \<lparr>rec_product = ascii ''Chef knife'', rec_category = ascii ''Kitchen'', score = 7 / 8\<rparr>]"
  unfolding ranked_for_def demo_candidates
  by (simp add: demo_embed ascii_def demo_rows demo_product_rounds sorted_reverse_def)


section \<open>The claims\<close>

text \<open>
  C1. Every list that \<open>compute_scores\<close> returns is in descending order of
  \<open>zero_shot_score\<close>, and it is a stable rearrangement of the entries in shortlist
  order: for each value of \<open>zero_shot_score\<close>, the entries carrying it appear as they
  do in the list built from the similarity ranking. This holds whatever order
  \<open>np.argsort\<close> leaves equal similarities in.
\<close>

theorem compute_scores_sorted_by_zero_shot:
  assumes "compute_scores srt bio posts ps vs m z alpha beta k w = Inr r"
  shows "sorted_wrt (\<lambda>x y. zero_shot_score y \<le> zero_shot_score x) r \<and>
    (\<exists>sims es. similarities bio posts vs m w = Inr sims \<and>
       shortlist_scores srt bio posts ps vs m z alpha beta k w = Inr es \<and>
       map res_label es = map (\<lambda>i. label (ps ! i)) (top_idxs srt sims k) \<and>
       mset r = mset es \<and>
       (\<forall>s. filter (\<lambda>e. zero_shot_score e = s) r = filter (\<lambda>e. zero_shot_score e = s) es))"
proof -
  from assms obtain es where
    es: "shortlist_scores srt bio posts ps vs m z alpha beta k w = Inr es"
    and r: "r = sorted_reverse zero_shot_score es"
    unfolding compute_scores_Inr by blast
  from shortlist_scores_Inr [OF es] obtain sims where
    sims: "similarities bio posts vs m w = Inr sims"
    and entries: "es = score_entries sims
            (zero_shot_get (z (zero_shot_text bio posts)
               (map (\<lambda>i. label (ps ! i)) (top_idxs srt sims k))))
            alpha beta (top_idxs srt sims k)
            (map (\<lambda>i. label (ps ! i)) (top_idxs srt sims k))"
    by blast
  have "map res_label es = map (\<lambda>i. label (ps ! i)) (top_idxs srt sims k)"
    unfolding entries by (simp add: score_entries_map o_def)
  with es r sims show ?thesis
    by (auto simp: sorted_reverse_descending sorted_reverse_stable sorted_reverse_mset)
qed

text \<open>
  With \<open>alpha = 1\<close> and \<open>beta = 0\<close> the example returns the persona of the higher
  zero-shot score first although its combined score is the lower one.
\<close>

theorem compute_scores_sorted_by_zero_shot_witness:
  "compute_scores insertion_argsort [] [] [foodie, traveler] demo_vectors demo_model
     demo_classifier 1 0 5 2 =
     Inr [\<lparr>res_label = ascii ''Traveler'', embed_score = 127 / 250, zero_shot_score = 4 / 5,
           combined_score = 127 / 250\<rparr>,
          \<lparr>res_label = ascii ''Foodie'', embed_score = 431 / 500, zero_shot_score = 1 / 5,
           combined_score = 431 / 500\<rparr>] \<and>
   sorted_wrt (\<lambda>x y. zero_shot_score y \<le> zero_shot_score x)
     [\<lparr>res_label = ascii ''Traveler'', embed_score = 127 / 250, zero_shot_score = 4 / 5,
       combined_score = 127 / 250\<rparr>,
      \<lparr>res_label = ascii ''Foodie'', embed_score = 431 / 500, zero_shot_score = 1 / 5,
       combined_score = 431 / 500\<rparr>]"
proof -
  have e: "compute_scores insertion_argsort [] [] [foodie, traveler] demo_vectors demo_model
     demo_classifier 1 0 5 2 =
     Inr [\<lparr>res_label = ascii ''Traveler'', embed_score = 127 / 250, zero_shot_score = 4 / 5,
           combined_score = 127 / 250\<rparr>,
          \<lparr>res_label = ascii ''Foodie'', embed_score = 431 / 500, zero_shot_score = 1 / 5,
           combined_score = 431 / 500\<rparr>]"
    using demo_scores [of 1 0] unfolding demo_combined by simp
  from compute_scores_sorted_by_zero_shot [OF e] e show ?thesis by blast
qed

text \<open>
  C2, as amended. For every entry that \<open>compute_scores\<close> returns there is a shortlisted
  persona index \<open>i\<close> such that \<open>embed_score\<close> is the similarity of \<open>i\<close> rounded to
  three places, \<open>zero_shot_score\<close> is the classifier's score of the label rounded to
  three places, and \<open>combined_score\<close> is \<open>alpha\<close> times the unrounded similarity plus
  \<open>beta\<close> times the unrounded classifier score, rounded to three places once.
\<close>

theorem compute_scores_fusion_of_raw_scores:
  assumes "compute_scores srt bio posts ps vs m z alpha beta k w = Inr r" and "e \<in> set r"
  shows "\<exists>sims. similarities bio posts vs m w = Inr sims \<and>
    (\<exists>i\<in>set (top_idxs srt sims k).
       i < length ps \<and> res_label e = label (ps ! i) \<and>
       embed_score e = py_round (sims ! i) 3 \<and>
       zero_shot_score e =
         py_round (zero_shot_get (z (zero_shot_text bio posts)
            (map (\<lambda>i. label (ps ! i)) (top_idxs srt sims k)))
            (res_label e)) 3 \<and>
       combined_score e =
         py_round (alpha * sims ! i +
                   beta * zero_shot_get (z (zero_shot_text bio posts)
                     (map (\<lambda>i. label (ps ! i)) (top_idxs srt sims k)))
                     (res_label e)) 3)"
proof -
  from assms(1) obtain es where
    es: "shortlist_scores srt bio posts ps vs m z alpha beta k w = Inr es"
    and r: "r = sorted_reverse zero_shot_score es"
    unfolding compute_scores_Inr by blast
  from shortlist_scores_Inr [OF es] obtain sims where
    sims: "similarities bio posts vs m w = Inr sims"
    and range: "\<forall>i\<in>set (top_idxs srt sims k). i < length ps"
    and entries: "es = score_entries sims
            (zero_shot_get (z (zero_shot_text bio posts)
               (map (\<lambda>i. label (ps ! i)) (top_idxs srt sims k))))
            alpha beta (top_idxs srt sims k)
            (map (\<lambda>i. label (ps ! i)) (top_idxs srt sims k))"
    by blast
  from assms(2) r have "e \<in> set es" by (simp add: sorted_reverse_set)
  then have "\<exists>i\<in>set (top_idxs srt sims k).
       i < length ps \<and> res_label e = label (ps ! i) \<and>
       embed_score e = py_round (sims ! i) 3 \<and>
       zero_shot_score e =
         py_round (zero_shot_get (z (zero_shot_text bio posts)
            (map (\<lambda>i. label (ps ! i)) (top_idxs srt sims k)))
            (res_label e)) 3 \<and>
       combined_score e =
         py_round (alpha * sims ! i +
                   beta * zero_shot_get (z (zero_shot_text bio posts)
                     (map (\<lambda>i. label (ps ! i)) (top_idxs srt sims k)))
                     (res_label e)) 3"
    using range unfolding entries by (auto simp: score_entries_map)
  with sims show ?thesis by blast
qed

theorem compute_scores_fusion_of_raw_scores_witness:
  "compute_scores insertion_argsort [] [] [foodie, traveler] demo_vectors demo_model
     demo_classifier (3 / 10) (7 / 10) 5 2 =
     Inr [\<lparr>res_label = ascii ''Traveler'', embed_score = 127 / 250, zero_shot_score = 4 / 5,
           combined_score = 89 / 125\<rparr>,
          \<lparr>res_label = ascii ''Foodie'', embed_score = 431 / 500, zero_shot_score = 1 / 5,
           combined_score = 199 / 500\<rparr>] \<and>
   (\<exists>sims. similarities [] [] demo_vectors demo_model 2 = Inr sims \<and>
      (\<exists>i\<in>set (top_idxs insertion_argsort sims 5).
         i < length [foodie, traveler] \<and> ascii ''Foodie'' = label ([foodie, traveler] ! i) \<and>
         431 / 500 = py_round (sims ! i) 3))"
proof -
  let ?foodie = "\<lparr>res_label = ascii ''Foodie'', embed_score = 431 / 500, zero_shot_score = 1 / 5,
           combined_score = 199 / 500\<rparr>"
  have e: "compute_scores insertion_argsort [] [] [foodie, traveler] demo_vectors demo_model
      demo_classifier (3 / 10) (7 / 10) 5 2 =
     Inr [\<lparr>res_label = ascii ''Traveler'', embed_score = 127 / 250, zero_shot_score = 4 / 5,
           combined_score = 89 / 125\<rparr>, ?foodie]"
    using demo_scores [of "3 / 10" "7 / 10"] unfolding demo_combined by simp
  have "?foodie \<in> set [\<lparr>res_label = ascii ''Traveler'', embed_score = 127 / 250,
      zero_shot_score = 4 / 5, combined_score = 89 / 125\<rparr>, ?foodie]"
    by simp
  from compute_scores_fusion_of_raw_scores [OF e this] e show ?thesis
    by simp blast
qed

text \<open>
  C2 as stated fails. With the default weights \<open>alpha = 0.3\<close> and \<open>beta = 0.7\<close> the
  example returns for the first persona \<open>embed_score = 0.862\<close>,
  \<open>zero_shot_score = 0.2\<close> and \<open>combined_score = 0.398\<close>, while the rounded scores
  would combine to \<open>round(0.3 * 0.862 + 0.7 * 0.2, 3) = 0.399\<close>.
\<close>

theorem combined_score_of_rounded_scores_counterexample:
  "compute_scores insertion_argsort [] [] [foodie, traveler] demo_vectors demo_model
     demo_classifier (3 / 10) (7 / 10) 5 2 =
     Inr [\<lparr>res_label = ascii ''Traveler'', embed_score = 127 / 250, zero_shot_score = 4 / 5,
           combined_score = 89 / 125\<rparr>,
          \<lparr>res_label = ascii ''Foodie'', embed_score = 431 / 500, zero_shot_score = 1 / 5,
           combined_score = 199 / 500\<rparr>] \<and>
   py_round (3 / 10 * (431 / 500) + 7 / 10 * (1 / 5)) 3 = 399 / 1000 \<and>
   (199 / 500 :: real) \<noteq> 399 / 1000"
  using demo_scores [of "3 / 10" "7 / 10"] unfolding demo_combined by simp

text \<open>
  C3, as amended. When \<open>posts\<close> is empty, the user vector built by
  \<open>embed_user_input\<close> is the vector of the stripped bio multiplied by \<open>weight_bio\<close>:
  the mean divides by the number of texts, which is one, not by the weight.
\<close>

theorem embed_user_input_no_posts_scaled:
  "embed_user_input bio [] model weight_bio =
     map (\<lambda>x. weight_bio * x) (embed model (str_strip bio))"
  by (rule embed_user_input_no_posts)

theorem embed_user_input_no_posts_scaled_witness:
  "embed_user_input (ascii '' chef '') [] demo_model 2 = [112 / 65, 66 / 65]"
  using embed_user_input_no_posts_scaled [of "ascii '' chef ''" demo_model 2]
  by (simp add: demo_embed ascii_def str_strip_def is_whitespace_def)

text \<open>
  C3 as stated fails: with the default weight \<open>2\<close> the user vector of a bio without
  posts is twice the bio vector.
\<close>

theorem user_vector_is_bio_vector_counterexample:
  "embed_user_input (ascii ''chef'') [] demo_model 2 = [112 / 65, 66 / 65] \<and>
   embed demo_model (ascii ''chef'') = [56 / 65, 33 / 65] \<and>
   embed_user_input (ascii ''chef'') [] demo_model 2 \<noteq> embed demo_model (ascii ''chef'')"
  by (simp add: embed_user_input_no_posts demo_embed ascii_def str_strip_def is_whitespace_def)

text \<open>
  C4, as amended. Whatever order \<open>np.argsort\<close> leaves equal values in, the shortlist
  holds distinct catalog indices, \<open>min(top_k, n)\<close> of them for a non-negative
  \<open>top_k\<close>, in descending order of similarity, and no persona left out has a higher
  similarity than a shortlisted one. Which of several personas of equal similarity
  comes first, or is left out, is not fixed by the code: it is the reverse of the
  order \<open>np.argsort\<close> returns them in, and not always the earlier persona.
\<close>

theorem top_idxs_highest_similarity:
  assumes "argsort_spec srt"
  shows "distinct (top_idxs srt sims top_k) \<and>
   set (top_idxs srt sims top_k) \<subseteq> {0..<length sims} \<and>
   (0 \<le> top_k \<longrightarrow> length (top_idxs srt sims top_k) = min (nat top_k) (length sims)) \<and>
   sorted_wrt (\<lambda>i j. sims ! j \<le> sims ! i) (top_idxs srt sims top_k) \<and>
   (\<forall>i\<in>set (top_idxs srt sims top_k). \<forall>j<length sims. j \<notin> set (top_idxs srt sims top_k) \<longrightarrow>
      sims ! j \<le> sims ! i)"
  using top_idxs_distinct [OF assms, of sims top_k] top_idxs_set [OF assms, of sims top_k]
    top_idxs_length [OF assms, of top_k sims] top_idxs_sorted [OF assms, of sims top_k]
    top_idxs_above_rest [OF assms, of _ sims top_k]
  by blast

text \<open>
  Two sorts that both meet the contract of \<open>np.argsort\<close> shortlist different
  personas on the same tie.
\<close>

theorem top_idxs_highest_similarity_witness:
  "argsort_spec insertion_argsort \<and> argsort_spec late_first_argsort \<and>
   top_idxs insertion_argsort [56 / 65, 56 / 65] 1 = [1] \<and>
   top_idxs late_first_argsort [56 / 65, 56 / 65] 1 = [0] \<and>
   length (top_idxs insertion_argsort [56 / 65, 56 / 65] 1) = min (nat 1) (length [56 / 65, 56 / 65 :: real]) \<and>
   [56 / 65, 56 / 65 :: real] ! 0 \<le> [56 / 65, 56 / 65] ! 1"
  using top_idxs_highest_similarity [OF insertion_argsort_spec, of "[56 / 65, 56 / 65]" 1]
    insertion_argsort_spec late_first_argsort_spec tied_top_idxs
  by simp

text \<open>
  C4 as stated fails. Two personas with the same vector have the same similarity, and
  with \<open>top_k = 1\<close>, and a sort that returns the two equal values in index order as
  numpy does on an array of two, the shortlist is the second of them, not the first.
\<close>

theorem ties_to_earlier_counterexample:
  "argsort_spec insertion_argsort \<and>
   similarities [] [] tied_vectors demo_model 2 = Inr [56 / 65, 56 / 65] \<and>
   top_idxs insertion_argsort [56 / 65, 56 / 65] 1 = [1] \<and>
   compute_scores insertion_argsort [] [] [foodie, traveler] tied_vectors demo_model
     demo_classifier 1 0 1 2 =
     Inr [\<lparr>res_label = ascii ''Traveler'', embed_score = 431 / 500, zero_shot_score = 1,
           combined_score = 431 / 500\<rparr>]"
  using insertion_argsort_spec tied_similarities tied_top_idxs tied_scores by simp

text \<open>
  C5, as amended. The user-vector construction has no failure of its own: for an empty
  bio and no posts it encodes the one text \<open>""\<close> and returns its vector times
  \<open>weight_bio\<close>, and \<open>compute_scores\<close> fails with \<open>EmptyInputError\<close> for no input
  at all.
\<close>

theorem empty_input_is_encoded:
  "embed_user_input [] [] model weight_bio = map (\<lambda>x. weight_bio * x) (embed model []) \<and>
   compute_scores srt bio posts ps vs model z alpha beta k weight_bio \<noteq> Inl EmptyInputError"
proof -
  have "embed_user_input [] [] model weight_bio = map (\<lambda>x. weight_bio * x) (embed model [])"
    using embed_user_input_no_posts [of "[]" model weight_bio] by (simp add: str_strip_def)
  moreover have "compute_scores srt bio posts ps vs model z alpha beta k weight_bio
      \<noteq> Inl EmptyInputError"
    using compute_scores_error [of srt bio posts ps vs model z alpha beta k weight_bio EmptyInputError]
    by auto
  ultimately show ?thesis by blast
qed

theorem empty_input_is_encoded_witness:
  "embed_user_input [] [] demo_model 2 = [112 / 65, 66 / 65] \<and>
   compute_scores insertion_argsort [] [] [foodie, traveler] demo_vectors demo_model
     demo_classifier 1 0 5 2 \<noteq> Inl EmptyInputError"
  using empty_input_is_encoded [of demo_model 2 insertion_argsort "[]" "[]" "[foodie, traveler]"
      demo_vectors demo_classifier 1 0 5]
  by (simp add: demo_embed)

text \<open>
  C5 as stated fails: with an empty bio and no posts the user vector is built and
  \<open>compute_scores\<close> returns its ranked list.
\<close>

theorem empty_input_error_counterexample:
  "embed_user_input [] [] demo_model 2 = [112 / 65, 66 / 65] \<and>
   compute_scores insertion_argsort [] [] [foodie, traveler] demo_vectors demo_model
     demo_classifier (3 / 10) (7 / 10) 5 2 =
     Inr [\<lparr>res_label = ascii ''Traveler'', embed_score = 127 / 250, zero_shot_score = 4 / 5,
           combined_score = 89 / 125\<rparr>,
          \<lparr>res_label = ascii ''Foodie'', embed_score = 431 / 500, zero_shot_score = 1 / 5,
           combined_score = 199 / 500\<rparr>] \<and>
   compute_scores insertion_argsort [] [] [foodie, traveler] demo_vectors demo_model
     demo_classifier (3 / 10) (7 / 10) 5 2 \<noteq> Inl EmptyInputError"
  using demo_scores [of "3 / 10" "7 / 10"] demo_user_vector unfolding demo_combined by simp

text \<open>
  C6. Let the catalog be non-empty, with one persona vector per persona, each of the
  width of the embedding model (as those built by \<open>embed_personalities\<close> are), and let
  the classifier return scores in \<open>[0, 1]\<close>. Then for every \<open>top_k \<ge> 1\<close>, and
  whatever order \<open>np.argsort\<close> leaves equal similarities in, \<open>compute_scores\<close>
  returns a list, without an error, of exactly \<open>min(top_k, number of personas)\<close>
  entries; every label in it is the label of a persona of the catalog; and every
  \<open>zero_shot_score\<close> lies in \<open>[0, 1]\<close>. A \<open>top_k\<close> above the number of personas is
  thus clamped to it. (On an empty catalog there is no valid range to clamp to, and
  the call fails with \<open>ValueError\<close>: \<open>compute_scores_empty_catalog\<close>.)
\<close>

theorem compute_scores_count_labels_range:
  assumes "1 \<le> top_k" and "ps \<noteq> []" and "length vs = length ps"
    and "\<forall>v\<in>set vs. length v = width m"
    and "\<forall>t ls. \<forall>s\<in>set (snd (z t ls)). 0 \<le> s \<and> s \<le> 1"
    and "argsort_spec srt"
  shows "\<exists>r. compute_scores srt bio posts ps vs m z alpha beta top_k w = Inr r \<and>
     length r = min (nat top_k) (length ps) \<and>
     (\<forall>e\<in>set r. res_label e \<in> label ` set ps \<and>
        0 \<le> zero_shot_score e \<and> zero_shot_score e \<le> 1)"
proof -
  have "vs \<noteq> []" using assms(2,3) by auto
  then obtain sims where sims: "similarities bio posts vs m w = Inr sims"
    using similarities_row [OF _ assms(4)] by blast
  have sims_len: "length sims = length ps"
    using similarities_Inr_length [OF sims] assms(3) by simp
  let ?idxs = "top_idxs srt sims top_k"
  let ?raw = "zero_shot_get (z (zero_shot_text bio posts) (map (\<lambda>i. label (ps ! i)) ?idxs))"
  let ?es = "score_entries sims ?raw alpha beta ?idxs (map (\<lambda>i. label (ps ! i)) ?idxs)"
  have es: "shortlist_scores srt bio posts ps vs m z alpha beta top_k w = Inr ?es"
    using assms(6) sims assms(3) by (rule shortlist_scores_total)
  then have r: "compute_scores srt bio posts ps vs m z alpha beta top_k w =
      Inr (sorted_reverse zero_shot_score ?es)"
    by (simp add: compute_scores_def)
  have len: "length (sorted_reverse zero_shot_score ?es) = min (nat top_k) (length ps)"
    using assms(1,6) sims_len
    by (simp add: sorted_reverse_length score_entries_map top_idxs_length)
  have range: "\<forall>i\<in>set ?idxs. i < length ps"
    using top_idxs_set [OF assms(6), of sims top_k] sims_len by auto
  have unit: "0 \<le> py_round (?raw l) 3 \<and> py_round (?raw l) 3 \<le> 1" for l
    using assms(5) zero_shot_get_range py_round_unit by blast
  have "res_label e \<in> label ` set ps \<and> 0 \<le> zero_shot_score e \<and> zero_shot_score e \<le> 1"
    if "e \<in> set (sorted_reverse zero_shot_score ?es)" for e
  proof -
    from that obtain i where i: "i \<in> set ?idxs"
      and e: "res_label e = label (ps ! i)" "zero_shot_score e = py_round (?raw (label (ps ! i))) 3"
      by (auto simp: sorted_reverse_set score_entries_map)
    from i range have "ps ! i \<in> set ps" by simp
    with e unit show ?thesis by auto
  qed
  with r len show ?thesis by blast
qed

theorem compute_scores_count_labels_range_witness:
  "(1::int) \<le> 5 \<and> [foodie, traveler] \<noteq> [] \<and> length demo_vectors = length [foodie, traveler] \<and>
   argsort_spec insertion_argsort \<and>
   (\<exists>r. compute_scores insertion_argsort [] [] [foodie, traveler] demo_vectors demo_model
           demo_classifier (3 / 10) (7 / 10) 5 2 = Inr r \<and>
        length r = min (nat 5) (length [foodie, traveler]))"
proof -
  have h1: "(1::int) \<le> 5" by simp
  have h2: "[foodie, traveler] \<noteq> []" by simp
  have h3: "length demo_vectors = length [foodie, traveler]" by (simp add: demo_vectors_def)
  have h4: "\<forall>v\<in>set demo_vectors. length v = width demo_model"
    by (simp add: demo_vectors_def demo_width)
  have h5: "\<forall>t ls. \<forall>s\<in>set (snd (demo_classifier t ls)). 0 \<le> s \<and> s \<le> 1"
    by (simp add: demo_classifier_def)
  from compute_scores_count_labels_range [OF h1 h2 h3 h4 h5 insertion_argsort_spec,
      of "[]" "[]" "3 / 10" "7 / 10" 2]
  have "\<exists>r. compute_scores insertion_argsort [] [] [foodie, traveler] demo_vectors demo_model
           demo_classifier (3 / 10) (7 / 10) 5 2 = Inr r \<and>
        length r = min (nat 5) (length [foodie, traveler])"
    by blast
  with h1 h2 h3 insertion_argsort_spec show ?thesis by blast
qed

text \<open>
  C7. \<open>post_style_insights\<close> of the empty list is the empty map. For a non-empty list
  of \<open>n\<close> posts the result has exactly the four fields. Each is a quotient, computed
  as the float nearest to it, then rounded: the number of code points of all posts
  over \<open>n\<close>, to one place; the number of whitespace-delimited tokens over \<open>n\<close>, to
  one place; a hundred times the number of posts containing an emoji code point over
  \<open>n\<close>, to one place; and the number of \<open>!\<close> code points over \<open>n\<close>, to two places.
  Rounded means what \<open>round\<close> does to a float, and in particular that the field is the
  float of a decimal with that many places, within half a unit of its last place of
  the quotient float.
\<close>

theorem post_style_insights_fields:
  "post_style_insights is_emoji [] = Map.empty \<and>
   (posts \<noteq> [] \<longrightarrow>
      dom (post_style_insights is_emoji posts) =
        {''avg_post_length_chars'', ''avg_post_length_words'', ''emoji_usage_percent'',
         ''avg_exclamations_per_post''} \<and>
      card (dom (post_style_insights is_emoji posts)) = 4 \<and>
      (\<exists>chars words emoji_posts exclamations.
         chars = true_div (int (length (concat posts))) (int (length posts)) \<and>
         words = true_div (int (\<Sum>p\<leftarrow>posts. token_starts True p)) (int (length posts)) \<and>
         emoji_posts =
           true_div (100 * int (length (filter (\<lambda>p. \<exists>c\<in>set p. is_emoji c) posts)))
             (int (length posts)) \<and>
         exclamations =
           true_div (int (\<Sum>p\<leftarrow>posts. length (filter (\<lambda>c. c = 33) p))) (int (length posts)) \<and>
         post_style_insights is_emoji posts ''avg_post_length_chars'' =
           Some (float_round chars 1) \<and>
         rounded_from 1 chars (float_round chars 1) \<and>
         post_style_insights is_emoji posts ''avg_post_length_words'' =
           Some (float_round words 1) \<and>
         rounded_from 1 words (float_round words 1) \<and>
         post_style_insights is_emoji posts ''emoji_usage_percent'' =
           Some (float_round emoji_posts 1) \<and>
         rounded_from 1 emoji_posts (float_round emoji_posts 1) \<and>
         post_style_insights is_emoji posts ''avg_exclamations_per_post'' =
           Some (float_round exclamations 2) \<and>
         rounded_from 2 exclamations (float_round exclamations 2)))"
  by (simp add: post_style_insights_def Let_def length_concat str_split_tokens list_ex_set
      count_list_filter dom_map_of_conv_image_fst insert_commute rounded_from_float_round)

text \<open>
  At the decimal ties \<open>1/20\<close> and \<open>1/40\<close> the quotient floats lie above the tie, and
  the fields are the floats \<open>0.1\<close> and \<open>0.03\<close>; rounding the exact quotients would give
  \<open>0.0\<close> and \<open>0.02\<close>.
\<close>

theorem post_style_insights_fields_witness:
  "one_in_twenty \<noteq> [] \<and> one_in_forty \<noteq> [] \<and>
   card (dom (post_style_insights is_emoji_ranges one_in_twenty)) = 4 \<and>
   post_style_insights is_emoji_ranges one_in_twenty ''avg_post_length_chars'' =
     Some (to_double (1 / 10)) \<and>
   post_style_insights is_emoji_ranges one_in_forty ''avg_exclamations_per_post'' =
     Some (to_double (3 / 100)) \<and>
   to_double (1 / 10) = 3602879701896397 / 36028797018963968 \<and>
   to_double (3 / 100) = 1080863910568919 / 36028797018963968 \<and>
   py_round (1 / 20) 1 = 0 \<and> py_round (1 / 40) 2 = 1 / 50"
  using post_style_insights_fields [of is_emoji_ranges one_in_twenty]
    post_style_insights_fields [of is_emoji_ranges one_in_forty]
    one_in_twenty_counts one_in_forty_counts tie_quotients
    double_of_tenth double_of_three_hundredths py_round_exact_ties
  by simp

text \<open>
  C8, as amended. For the two posts of the scenario, and an emoji test that accepts
  U+1F3D4 and no ASCII code point, \<open>post_style_insights\<close> returns
  \<open>avg_exclamations_per_post = 1.5\<close>, \<open>emoji_usage_percent = 50.0\<close> and
  \<open>avg_post_length_words = 3.5\<close>.
\<close>

theorem scenario_insights:
  assumes "is_emoji 127956" and "\<forall>c<128. \<not> is_emoji c"
  shows "post_style_insights is_emoji scenario_posts ''avg_exclamations_per_post'' = Some (3 / 2) \<and>
     post_style_insights is_emoji scenario_posts ''emoji_usage_percent'' = Some 50 \<and>
     post_style_insights is_emoji scenario_posts ''avg_post_length_words'' = Some (7 / 2)"
  using scenario_nonempty scenario_words scenario_exclamations scenario_emoji [OF assms]
  by (simp add: post_style_insights_def Let_def scenario_quotients scenario_rounds
      scenario_rounds_Suc)

theorem scenario_insights_witness:
  "is_emoji_ranges 127956 \<and>
   post_style_insights is_emoji_ranges scenario_posts ''avg_exclamations_per_post'' = Some (3 / 2) \<and>
   post_style_insights is_emoji_ranges scenario_posts ''emoji_usage_percent'' = Some 50 \<and>
   post_style_insights is_emoji_ranges scenario_posts ''avg_post_length_words'' = Some (7 / 2)"
  using scenario_insights [of is_emoji_ranges] is_emoji_ranges_scenario by simp

text \<open>
  C8 as stated fails: the posts split into four and three tokens, so the average word
  count is \<open>3.5\<close>, not \<open>4.0\<close>.
\<close>

theorem scenario_words_counterexample:
  "map (\<lambda>p. length (str_split p)) scenario_posts = [4, 3] \<and>
   post_style_insights is_emoji_ranges scenario_posts ''avg_post_length_words'' = Some (7 / 2) \<and>
   post_style_insights is_emoji_ranges scenario_posts ''avg_post_length_words'' \<noteq> Some 4"
  using scenario_nonempty scenario_words
  by (simp add: post_style_insights_def Let_def scenario_quotients scenario_rounds
      scenario_rounds_Suc)

text \<open>
  C9. \<open>recommend_products\<close> returns the empty list, and no error, whenever the
  candidate set is empty; in particular when \<open>top_personas\<close> is empty, and when every
  given label is absent from the catalog or has an empty list of entries there.
\<close>

theorem recommend_products_no_candidates:
  "(candidates top_personas cat = [] \<longrightarrow>
      recommend_products posts top_personas cat model top_k = Inr []) \<and>
   recommend_products posts [] cat model top_k = Inr [] \<and>
   ((\<forall>p\<in>set top_personas. cat p = None \<or> cat p = Some []) \<longrightarrow>
      recommend_products posts top_personas cat model top_k = Inr [])"
proof -
  have "candidates [] cat = []" by (simp add: candidates_def)
  moreover have "candidates top_personas cat = []"
    if "\<forall>p\<in>set top_personas. cat p = None \<or> cat p = Some []"
    using that by (auto simp: candidates_empty_iff catalog_get_def)
  ultimately show ?thesis
    using recommend_products_empty by blast
qed

theorem recommend_products_no_candidates_witness:
  "candidates [ascii ''Traveler''] demo_catalog = [] \<and>
   demo_catalog (ascii ''Traveler'') = None \<and>
   recommend_products [ascii ''Best trail ever!!''] [ascii ''Traveler''] demo_catalog demo_model 5
     = Inr []"
  using recommend_products_no_candidates
      [of "[ascii ''Traveler'']" demo_catalog "[ascii ''Best trail ever!!'']" demo_model 5]
    demo_absent
  by (simp add: candidates_def catalog_get_def)

text \<open>
  C10. With no posts, \<open>recommend_products\<close> raises no error: it returns the first
  \<open>top_k\<close> entries of the ranking of the candidates against the vector of the empty
  text, in descending order of score, \<open>min(top_k, number of candidates)\<close> of them for
  a non-negative \<open>top_k\<close>.
\<close>

theorem recommend_products_no_posts:
  "\<exists>r. recommend_products [] top_personas cat model top_k = Inr r \<and>
     r = py_take top_k (ranked_for [] top_personas cat model) \<and>
     sorted_wrt (\<lambda>x y. score y \<le> score x) r \<and>
     (0 \<le> top_k \<longrightarrow> length r = min (nat top_k) (length (candidates top_personas cat)))"
proof -
  have eq: "recommend_products [] top_personas cat model top_k =
      Inr (py_take top_k (ranked_for [] top_personas cat model))"
    using recommend_products_ranked [of "[]"] by simp
  have "sorted_wrt (\<lambda>x y. score y \<le> score x) (ranked_for [] top_personas cat model)"
    by (simp add: ranked_for_def sorted_reverse_descending)
  then have "sorted_wrt (\<lambda>x y. score y \<le> score x)
      (py_take top_k (ranked_for [] top_personas cat model))"
    by (rule py_take_sorted)
  moreover have "length (ranked_for [] top_personas cat model) = length (candidates top_personas cat)"
    by (simp add: ranked_for_def sorted_reverse_length)
  ultimately show ?thesis
    using eq by (simp add: py_take_length)
qed

theorem recommend_products_no_posts_witness:
  "(0::int) \<le> 5 \<and>
   recommend_products [] [ascii ''Foodie'', ascii ''Traveler''] demo_catalog demo_model 5 =
     Inr [\<lparr>rec_product = ascii ''Olive oil'', rec_category = ascii ''Pantry'', score = 1\<rparr>,
          \<lparr>rec_product = ascii ''Chef knife'', rec_category = ascii ''Kitchen'', score = 7 / 8\<rparr>]"
  using recommend_products_no_posts [of "[ascii ''Foodie'', ascii ''Traveler'']" demo_catalog demo_model 5]
  by (auto simp: demo_ranked py_take_def)


end
